theory Spec2Isabelle
  imports Complex_Main
begin

section \<open>The inference script of the custom-inference notebook\<close>

text \<open>
  The cell \<^verbatim>\<open>%%writefile code/inference.py\<close> of
  \<^verbatim>\<open>sagemaker/17_custom_inference_script/sagemaker-notebook.ipynb\<close> defines
  \<^verbatim>\<open>mean_pooling\<close>, \<^verbatim>\<open>model_fn\<close> and \<^verbatim>\<open>predict_fn\<close>. The embedding below follows
  \<^verbatim>\<open>mean_pooling\<close> and \<^verbatim>\<open>predict_fn\<close> operation by operation.

  An exception of the Python code is a value \<open>Inl e\<close>.
\<close>

subsection \<open>Exceptions\<close>

datatype error =
    RuntimeError      \<comment> \<open>torch: the sizes given to \<^verbatim>\<open>expand\<close> do not fit\<close>
  | IndexError        \<comment> \<open>index 0 of a tensor whose first dimension is 0\<close>
  | KeyError          \<comment> \<open>a key that the encoding does not have\<close>
  | ExternalError string  \<comment> \<open>raised inside the tokenizer or the encoder\<close>

subsection \<open>float32 values\<close>

text \<open>
  An element of a float tensor is a finite number or one of the special values
  \<^verbatim>\<open>inf\<close>, \<^verbatim>\<open>-inf\<close> and \<^verbatim>\<open>nan\<close>. The operations treat the special values as
  IEEE 754 does. On finite values they are exact: the rounding of float32, its overflow to
  \<^verbatim>\<open>inf\<close> beyond \<open>flt_max\<close> and the sign of zero are not modelled (a zero divisor counts
  as \<^verbatim>\<open>+0\<close>).
\<close>

datatype float32 = Finite real | PosInf | NegInf | NaN

text \<open>\<^verbatim>\<open>torch.isfinite\<close>\<close>

fun isfinite :: "float32 \<Rightarrow> bool" where
  "isfinite (Finite a) = True"
| "isfinite x = False"

text \<open>The largest finite float32 number, about \<^verbatim>\<open>3.4e38\<close>.\<close>

definition flt_max :: real where
  "flt_max = (2 - 1 / 2 ^ 23) * 2 ^ 127"

text \<open>Addition: \<^verbatim>\<open>inf + (-inf)\<close> is \<^verbatim>\<open>nan\<close>.\<close>

fun fadd :: "float32 \<Rightarrow> float32 \<Rightarrow> float32" where
  "fadd (Finite a) (Finite b) = Finite (a + b)"
| "fadd NaN y = NaN"
| "fadd x NaN = NaN"
| "fadd PosInf NegInf = NaN"
| "fadd NegInf PosInf = NaN"
| "fadd PosInf y = PosInf"
| "fadd x PosInf = PosInf"
| "fadd NegInf y = NegInf"
| "fadd x NegInf = NegInf"

text \<open>Multiplication: \<^verbatim>\<open>inf * 0\<close> is \<^verbatim>\<open>nan\<close>.\<close>

fun fmul :: "float32 \<Rightarrow> float32 \<Rightarrow> float32" where
  "fmul (Finite a) (Finite b) = Finite (a * b)"
| "fmul NaN y = NaN"
| "fmul x NaN = NaN"
| "fmul PosInf (Finite b) = (if b = 0 then NaN else if 0 < b then PosInf else NegInf)"
| "fmul NegInf (Finite b) = (if b = 0 then NaN else if 0 < b then NegInf else PosInf)"
| "fmul (Finite a) PosInf = (if a = 0 then NaN else if 0 < a then PosInf else NegInf)"
| "fmul (Finite a) NegInf = (if a = 0 then NaN else if 0 < a then NegInf else PosInf)"
| "fmul PosInf PosInf = PosInf"
| "fmul PosInf NegInf = NegInf"
| "fmul NegInf PosInf = NegInf"
| "fmul NegInf NegInf = PosInf"

text \<open>
  Division: \<^verbatim>\<open>0 / 0\<close> and \<^verbatim>\<open>inf / inf\<close> are \<^verbatim>\<open>nan\<close>, a nonzero number
  divided by 0 is infinite, and a finite number divided by an infinite one is 0.
\<close>

fun fdiv :: "float32 \<Rightarrow> float32 \<Rightarrow> float32" where
  "fdiv (Finite a) (Finite b) =
     (if b \<noteq> 0 then Finite (a / b)
      else if a = 0 then NaN else if 0 < a then PosInf else NegInf)"
| "fdiv NaN y = NaN"
| "fdiv x NaN = NaN"
| "fdiv (Finite a) PosInf = Finite 0"
| "fdiv (Finite a) NegInf = Finite 0"
| "fdiv PosInf (Finite b) = (if 0 \<le> b then PosInf else NegInf)"
| "fdiv NegInf (Finite b) = (if 0 \<le> b then NegInf else PosInf)"
| "fdiv PosInf y = NaN"
| "fdiv NegInf y = NaN"

text \<open>The square root, \<^verbatim>\<open>nan\<close> below 0.\<close>

fun fsqrt :: "float32 \<Rightarrow> float32" where
  "fsqrt (Finite a) = (if a < 0 then NaN else Finite (sqrt a))"
| "fsqrt PosInf = PosInf"
| "fsqrt x = NaN"

text \<open>The larger of an element and a Python number; \<^verbatim>\<open>nan\<close> stays \<^verbatim>\<open>nan\<close>.\<close>

fun fclamp_min :: "float32 \<Rightarrow> real \<Rightarrow> float32" where
  "fclamp_min (Finite a) lo = Finite (max a lo)"
| "fclamp_min PosInf lo = PosInf"
| "fclamp_min NegInf lo = Finite lo"
| "fclamp_min NaN lo = NaN"

text \<open>A sum of \<open>n\<close> elements, which starts from 0.\<close>

primrec fsum :: "(nat \<Rightarrow> float32) \<Rightarrow> nat \<Rightarrow> float32" where
  "fsum f 0 = Finite 0"
| "fsum f (Suc n) = fadd (fsum f n) (f n)"

subsection \<open>Tensors\<close>

text \<open>
  A tensor is its shape and its elements by index. Only the elements inside the shape
  belong to the tensor.
\<close>

record 'a tensor1 =
  size1_0 :: nat
  at1 :: "nat \<Rightarrow> 'a"

record 'a tensor2 =
  size2_0 :: nat
  size2_1 :: nat
  at2 :: "nat \<Rightarrow> nat \<Rightarrow> 'a"

record 'a tensor3 =
  size3_0 :: nat
  size3_1 :: nat
  size3_2 :: nat
  at3 :: "nat \<Rightarrow> nat \<Rightarrow> nat \<Rightarrow> 'a"

text \<open>\<^verbatim>\<open>torch.tensor(xss)\<close> of a rectangular nested list, for writing concrete tensors.\<close>

definition tensor2_of :: "'a list list \<Rightarrow> 'a tensor2" where
  "tensor2_of xss =
     \<lparr>size2_0 = length xss,
      size2_1 = (case xss of [] \<Rightarrow> 0 | r # _ \<Rightarrow> length r),
      at2 = (\<lambda>b d. xss ! b ! d)\<rparr>"

definition tensor3_of :: "'a list list list \<Rightarrow> 'a tensor3" where
  "tensor3_of xsss =
     \<lparr>size3_0 = length xsss,
      size3_1 = (case xsss of [] \<Rightarrow> 0 | m # _ \<Rightarrow> length m),
      size3_2 = (case xsss of [] \<Rightarrow> 0 | m # _ \<Rightarrow> (case m of [] \<Rightarrow> 0 | r # _ \<Rightarrow> length r)),
      at3 = (\<lambda>b l d. xsss ! b ! l ! d)\<rparr>"

text \<open>\<^verbatim>\<open>t.size()\<close>\<close>

definition size3 :: "'a tensor3 \<Rightarrow> nat \<times> nat \<times> nat" where
  "size3 t = (size3_0 t, size3_1 t, size3_2 t)"

definition size2 :: "'a tensor2 \<Rightarrow> nat \<times> nat" where
  "size2 t = (size2_0 t, size2_1 t)"

text \<open>\<^verbatim>\<open>t.unsqueeze(-1)\<close>: a new last dimension of size 1.\<close>

definition unsqueeze_last :: "'a tensor2 \<Rightarrow> 'a tensor3" where
  "unsqueeze_last t =
     \<lparr>size3_0 = size2_0 t, size3_1 = size2_1 t, size3_2 = 1,
      at3 = (\<lambda>b l d. at2 t b l)\<rparr>"

text \<open>
  \<^verbatim>\<open>t.expand(sizes)\<close>: a dimension keeps its size, or has size 1 and is repeated;
  any other pair of sizes raises RuntimeError.
\<close>

definition expandable :: "nat \<Rightarrow> nat \<Rightarrow> bool" where
  "expandable src tgt \<longleftrightarrow> src = tgt \<or> src = 1"

definition expand :: "'a tensor3 \<Rightarrow> nat \<times> nat \<times> nat \<Rightarrow> error + 'a tensor3" where
  "expand t sizes =
     (case sizes of (n0, n1, n2) \<Rightarrow>
        if expandable (size3_0 t) n0 \<and> expandable (size3_1 t) n1 \<and> expandable (size3_2 t) n2
        then Inr \<lparr>size3_0 = n0, size3_1 = n1, size3_2 = n2,
                  at3 = (\<lambda>b l d. at3 t (if size3_0 t = 1 then 0 else b)
                                        (if size3_1 t = 1 then 0 else l)
                                        (if size3_2 t = 1 then 0 else d))\<rparr>
        else Inl RuntimeError)"

text \<open>\<^verbatim>\<open>t.float()\<close> of an integer tensor.\<close>

definition float3 :: "int tensor3 \<Rightarrow> float32 tensor3" where
  "float3 t =
     \<lparr>size3_0 = size3_0 t, size3_1 = size3_1 t, size3_2 = size3_2 t,
      at3 = (\<lambda>b l d. Finite (real_of_int (at3 t b l d)))\<rparr>"

text \<open>
  \<^verbatim>\<open>a * b\<close> and \<^verbatim>\<open>a / b\<close>, element by element. Both are applied to tensors of one
  shape here (\<^verbatim>\<open>expand\<close> has produced the shape of the embeddings, and both sums run
  over dimension 1 of that shape), so broadcasting plays no part.
\<close>

definition mul3 :: "float32 tensor3 \<Rightarrow> float32 tensor3 \<Rightarrow> float32 tensor3" where
  "mul3 a b =
     \<lparr>size3_0 = size3_0 a, size3_1 = size3_1 a, size3_2 = size3_2 a,
      at3 = (\<lambda>i j k. fmul (at3 a i j k) (at3 b i j k))\<rparr>"

definition div2 :: "float32 tensor2 \<Rightarrow> float32 tensor2 \<Rightarrow> float32 tensor2" where
  "div2 a b =
     \<lparr>size2_0 = size2_0 a, size2_1 = size2_1 a,
      at2 = (\<lambda>i k. fdiv (at2 a i k) (at2 b i k))\<rparr>"

text \<open>\<^verbatim>\<open>torch.sum(t, 1)\<close> and \<^verbatim>\<open>t.sum(1)\<close>: the sum over dimension 1.\<close>

definition sum_dim1 :: "float32 tensor3 \<Rightarrow> float32 tensor2" where
  "sum_dim1 t =
     \<lparr>size2_0 = size3_0 t, size2_1 = size3_2 t,
      at2 = (\<lambda>b d. fsum (\<lambda>l. at3 t b l d) (size3_1 t))\<rparr>"

text \<open>\<^verbatim>\<open>torch.clamp(t, min=lo)\<close>\<close>

definition clamp_min :: "float32 tensor2 \<Rightarrow> real \<Rightarrow> float32 tensor2" where
  "clamp_min t lo =
     \<lparr>size2_0 = size2_0 t, size2_1 = size2_1 t,
      at2 = (\<lambda>b d. fclamp_min (at2 t b d) lo)\<rparr>"

subsection \<open>mean_pooling\<close>

text \<open>
  The output of the encoder, indexed like a tuple: element 0 holds the token embeddings.
\<close>

record model_output =
  last_hidden_state :: "float32 tensor3"
  pooler_output :: "float32 tensor2"

definition getitem0 :: "model_output \<Rightarrow> float32 tensor3" where
  "getitem0 model_output = last_hidden_state model_output"

text \<open>
  \<^verbatim>\<open>
  def mean_pooling(model_output, attention_mask):
      token_embeddings = model_output[0]
      input_mask_expanded = attention_mask.unsqueeze(-1).expand(token_embeddings.size()).float()
      return torch.sum(token_embeddings * input_mask_expanded, 1) / torch.clamp(input_mask_expanded.sum(1), min=1e-9)
  \<close>
\<close>

definition mean_pooling :: "model_output \<Rightarrow> int tensor2 \<Rightarrow> error + float32 tensor2" where
  "mean_pooling model_output attention_mask =
     (let token_embeddings = getitem0 model_output in
      case expand (unsqueeze_last attention_mask) (size3 token_embeddings) of
        Inl e \<Rightarrow> Inl e
      | Inr expanded \<Rightarrow>
          let input_mask_expanded = float3 expanded in
          Inr (div2 (sum_dim1 (mul3 token_embeddings input_mask_expanded))
                    (clamp_min (sum_dim1 input_mask_expanded) (1 / 10 ^ 9))))"

subsection \<open>F.normalize\<close>

text \<open>
  \<^verbatim>\<open>F.normalize(input, p=2, dim=1)\<close> of torch.nn.functional, whose \<^verbatim>\<open>eps\<close> defaults to
  \<^verbatim>\<open>1e-12\<close>: every row is divided by \<^verbatim>\<open>max(norm of the row, eps)\<close>, where the norm
  of a row is the square root of the sum of its squares.
\<close>

definition l2_norm :: "float32 tensor2 \<Rightarrow> nat \<Rightarrow> float32" where
  "l2_norm t b = fsqrt (fsum (\<lambda>d. fmul (at2 t b d) (at2 t b d)) (size2_1 t))"

definition F_normalize :: "float32 tensor2 \<Rightarrow> float32 tensor2" where
  "F_normalize t =
     \<lparr>size2_0 = size2_0 t, size2_1 = size2_1 t,
      at2 = (\<lambda>b d. fdiv (at2 t b d) (fclamp_min (l2_norm t b) (1 / 10 ^ 12)))\<rparr>"

subsection \<open>predict_fn\<close>

text \<open>
  \<^verbatim>\<open>d.pop(key, default)\<close> of a dict: the value of the key, which is removed, or the
  default, with the dict as it was.
\<close>

datatype ('v, 'd) popped = Found 'v | Default 'd

definition pop :: "('k \<rightharpoonup> 'v) \<Rightarrow> 'k \<Rightarrow> 'd \<Rightarrow> ('v, 'd) popped \<times> ('k \<rightharpoonup> 'v)" where
  "pop d k dflt = (case d k of Some v \<Rightarrow> (Found v, d(k := None)) | None \<Rightarrow> (Default dflt, d))"

text \<open>\<^verbatim>\<open>encoded_input['attention_mask']\<close>\<close>

definition getitem :: "('k \<rightharpoonup> 'v) \<Rightarrow> 'k \<Rightarrow> error + 'v" where
  "getitem d k = (case d k of None \<Rightarrow> Inl KeyError | Some v \<Rightarrow> Inr v)"

text \<open>\<^verbatim>\<open>t[0]\<close> of a two-dimensional tensor, and \<^verbatim>\<open>.tolist()\<close> of a one-dimensional one.\<close>

definition row0 :: "'a tensor2 \<Rightarrow> error + 'a tensor1" where
  "row0 t = (if size2_0 t = 0 then Inl IndexError
             else Inr \<lparr>size1_0 = size2_1 t, at1 = (\<lambda>d. at2 t 0 d)\<rparr>)"

definition tolist :: "'a tensor1 \<Rightarrow> 'a list" where
  "tolist t = map (at1 t) [0..<size1_0 t]"

text \<open>
  The tokenizer and the encoder are the two collaborators \<^verbatim>\<open>predict_fn\<close> is given. The
  tokenizer receives what \<^verbatim>\<open>pop\<close> returned: the value of \<^verbatim>\<open>"inputs"\<close>, or the
  request mapping itself.
\<close>

type_synonym 'v request = "string \<rightharpoonup> 'v"
type_synonym encoded_input = "string \<rightharpoonup> int tensor2"
type_synonym 'v tokenizer = "('v, 'v request) popped \<Rightarrow> error + encoded_input"
type_synonym model = "encoded_input \<Rightarrow> error + model_output"
type_synonym payload = "string \<rightharpoonup> float32 list"

text \<open>
  \<^verbatim>\<open>
  def predict_fn(data, model_and_tokenizer):
      model, tokenizer = model_and_tokenizer
      sentences = data.pop("inputs", data)
      encoded_input = tokenizer(sentences, padding=True, truncation=True, return_tensors='pt')
      with torch.no_grad():
          model_output = model(**encoded_input)
      sentence_embeddings = mean_pooling(model_output, encoded_input['attention_mask'])
      sentence_embeddings = F.normalize(sentence_embeddings, p=2, dim=1)
      return {"vectors": sentence_embeddings[0].tolist()}
  \<close>
  The model returns the result, or the exception, together with the request mapping as
  the call leaves it.
\<close>

definition predict_fn ::
  "'v request \<Rightarrow> model \<times> 'v tokenizer \<Rightarrow> (error + payload) \<times> 'v request" where
  "predict_fn data model_and_tokenizer =
     (case model_and_tokenizer of (model, tokenizer) \<Rightarrow>
      case pop data ''inputs'' data of (sentences, data') \<Rightarrow>
        ((case tokenizer sentences of
            Inl e \<Rightarrow> Inl e
          | Inr encoded_input \<Rightarrow>
             (case model encoded_input of
                Inl e \<Rightarrow> Inl e
              | Inr model_output \<Rightarrow>
                 (case getitem encoded_input ''attention_mask'' of
                    Inl e \<Rightarrow> Inl e
                  | Inr attention_mask \<Rightarrow>
                     (case mean_pooling model_output attention_mask of
                        Inl e \<Rightarrow> Inl e
                      | Inr pooled \<Rightarrow>
                         (let sentence_embeddings = F_normalize pooled in
                          case row0 sentence_embeddings of
                            Inl e \<Rightarrow> Inl e
                          | Inr v \<Rightarrow> Inr [''vectors'' \<mapsto> tolist v]))))),
         data'))"

section \<open>Concrete inputs\<close>

text \<open>
  A batch of two sentences of two tokens each, hidden dimension 2; the second sentence
  has one padding token. The stub tokenizer and encoder return them for every input.
\<close>

definition example_output :: model_output where
  "example_output =
     \<lparr>last_hidden_state =
        tensor3_of [[[Finite 1, Finite 0], [Finite 3, Finite 0]],
                    [[Finite 0, Finite 5], [Finite 7, Finite 7]]],
      pooler_output = tensor2_of [[Finite 0, Finite 0], [Finite 0, Finite 0]]\<rparr>"

definition example_mask :: "int tensor2" where
  "example_mask = tensor2_of [[1, 1], [1, 0]]"

definition example_tokenizer :: "string list tokenizer" where
  "example_tokenizer sentences = Inr [''attention_mask'' \<mapsto> example_mask]"

definition example_model :: model where
  "example_model encoded_input = Inr example_output"

text \<open>An encoder output with the given token embeddings, for further concrete inputs.\<close>

definition output_of :: "float32 list list list \<Rightarrow> model_output" where
  "output_of xsss = \<lparr>last_hidden_state = tensor3_of xsss, pooler_output = tensor2_of []\<rparr>"

text \<open>
  A row of norm 1e-13, below the floor of \<^verbatim>\<open>F.normalize\<close>, and a matrix with a row
  of norm 5, a zero row and a row of norm 1e-13.
\<close>

definition tiny :: real where
  "tiny = 1 / 10 ^ 13"

definition tiny_row :: "float32 tensor2" where
  "tiny_row = tensor2_of [[Finite tiny]]"

definition example_matrix :: "float32 tensor2" where
  "example_matrix =
     tensor2_of [[Finite 3, Finite 4], [Finite 0, Finite 0], [Finite tiny, Finite 0]]"

section \<open>Properties\<close>

subsection \<open>Auxiliary facts\<close>

lemma isfinite_iff: "isfinite x \<longleftrightarrow> (\<exists>a. x = Finite a)"
  by (cases x) simp_all

lemma fmul_one: "fmul x (Finite 1) = x"
  by (cases x) simp_all

lemma fsum_cong:
  assumes "\<And>l. l < n \<Longrightarrow> f l = g l"
  shows "fsum f n = fsum g n"
  using assms by (induction n) simp_all

lemma fsum_Finite:
  assumes "\<And>l. l < n \<Longrightarrow> f l = Finite (g l)"
  shows "fsum f n = Finite (\<Sum>l<n. g l)"
  using assms by (induction n) simp_all

lemma expand_mask:
  assumes "size2_0 m = B" and "size2_1 m = L"
  shows "\<exists>x. expand (unsqueeze_last m) (B, L, D) = Inr x \<and>
           size3_0 x = B \<and> size3_1 x = L \<and> size3_2 x = D \<and>
           (\<forall>b<B. \<forall>l<L. \<forall>d. at3 x b l d = at2 m b l)"
  using assms by (auto simp add: expand_def unsqueeze_last_def expandable_def)

lemma mean_pooling_at:
  assumes "size2_0 attention_mask = size3_0 (getitem0 model_output)"
    and "size2_1 attention_mask = size3_1 (getitem0 model_output)"
  shows "\<exists>pooled. mean_pooling model_output attention_mask = Inr pooled \<and>
     size2_0 pooled = size3_0 (getitem0 model_output) \<and>
     size2_1 pooled = size3_2 (getitem0 model_output) \<and>
     (\<forall>b<size3_0 (getitem0 model_output). \<forall>d. at2 pooled b d =
       fdiv (fsum (\<lambda>l. fmul (at3 (getitem0 model_output) b l d)
                              (Finite (real_of_int (at2 attention_mask b l))))
                  (size3_1 (getitem0 model_output)))
            (fclamp_min (fsum (\<lambda>l. Finite (real_of_int (at2 attention_mask b l)))
                              (size3_1 (getitem0 model_output)))
                        (1 / 10 ^ 9)))"
proof -
  let ?e = "getitem0 model_output"
  obtain x where x: "expand (unsqueeze_last attention_mask) (size3 ?e) = Inr x"
    and s: "size3_0 x = size3_0 ?e" "size3_1 x = size3_1 ?e" "size3_2 x = size3_2 ?e"
    and a: "\<And>b l d. b < size3_0 ?e \<Longrightarrow> l < size3_1 ?e \<Longrightarrow> at3 x b l d = at2 attention_mask b l"
    using expand_mask[OF assms, of "size3_2 ?e"] unfolding size3_def by blast
  let ?p = "div2 (sum_dim1 (mul3 ?e (float3 x))) (clamp_min (sum_dim1 (float3 x)) (1 / 10 ^ 9))"
  have "mean_pooling model_output attention_mask = Inr ?p"
    by (simp add: mean_pooling_def x Let_def)
  moreover have "size2_0 ?p = size3_0 ?e" "size2_1 ?p = size3_2 ?e"
    by (simp_all add: div2_def sum_dim1_def mul3_def)
  moreover have "at2 ?p b d =
       fdiv (fsum (\<lambda>l. fmul (at3 ?e b l d) (Finite (real_of_int (at2 attention_mask b l))))
                  (size3_1 ?e))
            (fclamp_min (fsum (\<lambda>l. Finite (real_of_int (at2 attention_mask b l))) (size3_1 ?e))
                        (1 / 10 ^ 9))"
    if "b < size3_0 ?e" for b d
  proof -
    have 1: "fsum (\<lambda>l. fmul (at3 ?e b l d) (Finite (real_of_int (at3 x b l d)))) (size3_1 ?e) =
             fsum (\<lambda>l. fmul (at3 ?e b l d) (Finite (real_of_int (at2 attention_mask b l))))
                  (size3_1 ?e)"
      by (rule fsum_cong) (simp add: a that)
    have 2: "fsum (\<lambda>l. Finite (real_of_int (at3 x b l d))) (size3_1 ?e) =
             fsum (\<lambda>l. Finite (real_of_int (at2 attention_mask b l))) (size3_1 ?e)"
      by (rule fsum_cong) (simp add: a that)
    show ?thesis
      by (simp add: div2_def sum_dim1_def mul3_def float3_def clamp_min_def s 1 2)
  qed
  ultimately show ?thesis by blast
qed

lemma finite_quotient:
  assumes "\<And>l. l < L \<Longrightarrow> f l = Finite (r l)"
  shows "fdiv (fsum (\<lambda>l. fmul (f l) (Finite (m l))) L)
              (fclamp_min (fsum (\<lambda>l. Finite (m l)) L) (1 / 10 ^ 9)) =
         Finite ((\<Sum>l<L. r l * m l) / max (\<Sum>l<L. m l) (1 / 10 ^ 9))"
proof -
  have "fsum (\<lambda>l. fmul (f l) (Finite (m l))) L = Finite (\<Sum>l<L. r l * m l)"
    by (rule fsum_Finite) (simp add: assms)
  moreover have "fsum (\<lambda>l. Finite (m l)) L = Finite (\<Sum>l<L. m l)"
    by (rule fsum_Finite) simp
  moreover have "max (\<Sum>l<L. m l) (1 / 10 ^ 9) \<noteq> 0"
    by (simp add: max_def)
  ultimately show ?thesis by simp
qed

lemma example_sizes:
  "size3 (getitem0 example_output) = (2, 2, 2)" "size2 example_mask = (2, 2)"
  by (simp_all add: example_output_def example_mask_def getitem0_def size3_def size2_def
      tensor3_of_def tensor2_of_def)

subsection \<open>The pooling formula\<close>

text \<open>
  C1. For token embeddings of shape (B, L, D) and an attention mask of shape (B, L),
  \<^verbatim>\<open>mean_pooling\<close> returns a tensor of shape (B, D) whose element (b, d) is the sum over
  l of embedding[b][l][d] * mask[b][l], divided by the larger of the sum over l of
  mask[b][l] and 1e-9; the floor is taken row by row. The mask need not be binary for
  this. Where the embeddings are finite, the element is that quotient of numbers.
\<close>

theorem mean_pooling_formula:
  assumes "size3 (getitem0 model_output) = (B, L, D)"
    and "size2 attention_mask = (B, L)"
  shows "\<exists>pooled. mean_pooling model_output attention_mask = Inr pooled \<and>
     size2 pooled = (B, D) \<and>
     (\<forall>b<B. \<forall>d<D. at2 pooled b d =
        fdiv (fsum (\<lambda>l. fmul (at3 (getitem0 model_output) b l d)
                               (Finite (real_of_int (at2 attention_mask b l)))) L)
             (fclamp_min (fsum (\<lambda>l. Finite (real_of_int (at2 attention_mask b l))) L)
                         (1 / 10 ^ 9))) \<and>
     (\<forall>b<B. \<forall>d<D. \<forall>r. (\<forall>l<L. at3 (getitem0 model_output) b l d = Finite (r l)) \<longrightarrow>
        at2 pooled b d =
          Finite ((\<Sum>l<L. r l * real_of_int (at2 attention_mask b l))
                  / max (\<Sum>l<L. real_of_int (at2 attention_mask b l)) (1 / 10 ^ 9)))"
proof -
  from assms have s: "size3_0 (getitem0 model_output) = B" "size3_1 (getitem0 model_output) = L"
    "size3_2 (getitem0 model_output) = D" "size2_0 attention_mask = B" "size2_1 attention_mask = L"
    by (simp_all add: size3_def size2_def)
  from mean_pooling_at[of attention_mask model_output] s
  obtain pooled where p: "mean_pooling model_output attention_mask = Inr pooled"
    "size2 pooled = (B, D)"
    and f: "\<And>b d. b < B \<Longrightarrow> at2 pooled b d =
        fdiv (fsum (\<lambda>l. fmul (at3 (getitem0 model_output) b l d)
                               (Finite (real_of_int (at2 attention_mask b l)))) L)
             (fclamp_min (fsum (\<lambda>l. Finite (real_of_int (at2 attention_mask b l))) L)
                         (1 / 10 ^ 9))"
    by (auto simp add: size2_def)
  have "at2 pooled b d =
          Finite ((\<Sum>l<L. r l * real_of_int (at2 attention_mask b l))
                  / max (\<Sum>l<L. real_of_int (at2 attention_mask b l)) (1 / 10 ^ 9))"
    if "b < B" and "\<forall>l<L. at3 (getitem0 model_output) b l d = Finite (r l)" for b d r
    unfolding f[OF that(1)] using that(2) by (intro finite_quotient) simp
  with p f show ?thesis by blast
qed

theorem mean_pooling_formula_witness:
  "\<exists>pooled. mean_pooling example_output example_mask = Inr pooled \<and>
     size2 pooled = (2, 2) \<and>
     at2 pooled 0 0 = Finite 2 \<and> at2 pooled 0 1 = Finite 0 \<and>
     at2 pooled 1 0 = Finite 0 \<and> at2 pooled 1 1 = Finite 5"
proof -
  obtain pooled where p: "mean_pooling example_output example_mask = Inr pooled"
    "size2 pooled = (2, 2)"
    and f: "\<And>b d. b < 2 \<Longrightarrow> d < 2 \<Longrightarrow> at2 pooled b d =
        fdiv (fsum (\<lambda>l. fmul (at3 (getitem0 example_output) b l d)
                               (Finite (real_of_int (at2 example_mask b l)))) 2)
             (fclamp_min (fsum (\<lambda>l. Finite (real_of_int (at2 example_mask b l))) 2)
                         (1 / 10 ^ 9))"
    using mean_pooling_formula[OF example_sizes] by blast
  have "at2 pooled 0 0 = Finite 2" "at2 pooled 0 1 = Finite 0"
    "at2 pooled 1 0 = Finite 0" "at2 pooled 1 1 = Finite 5"
    by (simp_all add: f example_output_def example_mask_def getitem0_def tensor3_of_def
        tensor2_of_def numeral_2_eq_2)
  with p show ?thesis by blast
qed

subsection \<open>A row without padding\<close>

text \<open>
  C8. When every mask entry of row b is 1 (and the row has at least one token), row b of
  the pooled tensor is the plain arithmetic mean of the L token vectors of that row: their
  sum divided by L, and for finite embeddings that quotient of numbers.
\<close>

theorem all_ones_row_is_mean:
  assumes "size3 (getitem0 model_output) = (B, L, D)"
    and "size2 attention_mask = (B, L)"
    and "b < B" and "0 < L"
    and "\<forall>l<L. at2 attention_mask b l = 1"
  shows "\<exists>pooled. mean_pooling model_output attention_mask = Inr pooled \<and>
     (\<forall>d<D. at2 pooled b d =
        fdiv (fsum (\<lambda>l. at3 (getitem0 model_output) b l d) L) (Finite (real L))) \<and>
     (\<forall>d<D. \<forall>r. (\<forall>l<L. at3 (getitem0 model_output) b l d = Finite (r l)) \<longrightarrow>
        at2 pooled b d = Finite ((\<Sum>l<L. r l) / real L))"
proof -
  obtain pooled where p: "mean_pooling model_output attention_mask = Inr pooled"
    and f: "\<And>d. at2 pooled b d =
        fdiv (fsum (\<lambda>l. fmul (at3 (getitem0 model_output) b l d)
                               (Finite (real_of_int (at2 attention_mask b l)))) L)
             (fclamp_min (fsum (\<lambda>l. Finite (real_of_int (at2 attention_mask b l))) L)
                         (1 / 10 ^ 9))"
    using mean_pooling_at[of attention_mask model_output] assms(1-3)
    by (auto simp add: size3_def size2_def)
  have "1 / 10 ^ 9 \<le> (1::real)" by simp
  also have "\<dots> \<le> real L" using assms(4) by simp
  finally have m: "max (real L) (1 / 10 ^ 9) = real L" by (simp add: max_def)
  have num: "fsum (\<lambda>l. fmul (at3 (getitem0 model_output) b l d)
                               (Finite (real_of_int (at2 attention_mask b l)))) L =
        fsum (\<lambda>l. at3 (getitem0 model_output) b l d) L" for d
    by (rule fsum_cong) (simp add: assms(5) fmul_one)
  have "fsum (\<lambda>l. Finite (real_of_int (at2 attention_mask b l))) L = Finite (\<Sum>l<L. 1)"
    by (rule fsum_Finite) (simp add: assms(5))
  then have den: "fclamp_min (fsum (\<lambda>l. Finite (real_of_int (at2 attention_mask b l))) L)
                         (1 / 10 ^ 9) = Finite (real L)"
    using m by simp
  have g: "at2 pooled b d = fdiv (fsum (\<lambda>l. at3 (getitem0 model_output) b l d) L) (Finite (real L))"
    for d
    unfolding f num den ..
  have "at2 pooled b d = Finite ((\<Sum>l<L. r l) / real L)"
    if "\<forall>l<L. at3 (getitem0 model_output) b l d = Finite (r l)" for d r
  proof -
    have "fsum (\<lambda>l. at3 (getitem0 model_output) b l d) L = Finite (\<Sum>l<L. r l)"
      by (rule fsum_Finite) (simp add: that)
    then show ?thesis using assms(4) by (simp add: g)
  qed
  with p g show ?thesis by blast
qed

theorem all_ones_row_is_mean_witness:
  "\<exists>pooled. mean_pooling example_output example_mask = Inr pooled \<and>
     at2 pooled 0 0 = Finite ((1 + 3) / 2) \<and> at2 pooled 0 1 = Finite ((0 + 0) / 2)"
proof -
  have "(0::nat) < 2" "(0::nat) < 2" "\<forall>l<2. at2 example_mask 0 l = 1"
    by (simp_all add: example_mask_def tensor2_of_def less_2_cases_iff)
  from all_ones_row_is_mean[OF example_sizes this]
  obtain pooled where "mean_pooling example_output example_mask = Inr pooled"
    and "\<forall>d<2. at2 pooled 0 d =
        fdiv (fsum (\<lambda>l. at3 (getitem0 example_output) 0 l d) 2) (Finite (real 2))"
    by blast
  then show ?thesis
    by (auto simp add: example_output_def getitem0_def tensor3_of_def numeral_2_eq_2)
qed

subsection \<open>Shapes that do not match\<close>

text \<open>
  C6, as stated, fails: a mask of shape (1, 1) with embeddings of shape (2, 1, 1) has
  another batch size, and \<^verbatim>\<open>expand\<close> repeats the one mask row instead of raising.
  The call returns a pooled tensor of shape (2, 1).
\<close>

theorem shape_mismatch_counterexample:
  "size2_0 (tensor2_of [[1::int]]) \<noteq>
     size3_0 (getitem0 (output_of [[[Finite 4]], [[Finite 6]]])) \<and>
   \<not> isl (mean_pooling (output_of [[[Finite 4]], [[Finite 6]]]) (tensor2_of [[1]])) \<and>
   size2 (projr (mean_pooling (output_of [[[Finite 4]], [[Finite 6]]]) (tensor2_of [[1]]))) =
     (2, 1) \<and>
   at2 (projr (mean_pooling (output_of [[[Finite 4]], [[Finite 6]]]) (tensor2_of [[1]]))) 1 0 =
     Finite 6"
  by (simp add: mean_pooling_def expand_def expandable_def unsqueeze_last_def size3_def
      size2_def output_of_def getitem0_def tensor3_of_def tensor2_of_def float3_def mul3_def
      div2_def sum_dim1_def clamp_min_def Let_def)

text \<open>
  C6, amended. If the batch size of the mask differs from that of the embeddings and is
  not 1, or its sequence length differs from that of the embeddings and is not 1,
  \<^verbatim>\<open>mean_pooling\<close> raises RuntimeError (from \<^verbatim>\<open>expand\<close>) and returns no pooled tensor.
  In every other case, so also when a mask dimension of size 1 is broadcast, it returns.
\<close>

theorem shape_mismatch_raises:
  "((size2_0 attention_mask \<noteq> size3_0 (getitem0 model_output) \<and> size2_0 attention_mask \<noteq> 1)
      \<or> (size2_1 attention_mask \<noteq> size3_1 (getitem0 model_output) \<and> size2_1 attention_mask \<noteq> 1)
    \<longrightarrow> mean_pooling model_output attention_mask = Inl RuntimeError) \<and>
   ((size2_0 attention_mask = size3_0 (getitem0 model_output) \<or> size2_0 attention_mask = 1)
      \<and> (size2_1 attention_mask = size3_1 (getitem0 model_output) \<or> size2_1 attention_mask = 1)
    \<longrightarrow> \<not> isl (mean_pooling model_output attention_mask))"
  by (auto simp add: mean_pooling_def expand_def expandable_def unsqueeze_last_def size3_def
      Let_def)

theorem shape_mismatch_raises_witness:
  "mean_pooling (output_of [[[Finite 4]], [[Finite 6]]]) (tensor2_of [[1], [1], [0]]) =
     Inl RuntimeError \<and>
   \<not> isl (mean_pooling (output_of [[[Finite 4]], [[Finite 6]]]) (tensor2_of [[1], [0]]))"
proof -
  have s: "size3_0 (getitem0 (output_of [[[Finite 4]], [[Finite 6]]])) = 2"
    "size3_1 (getitem0 (output_of [[[Finite 4]], [[Finite 6]]])) = 1"
    "size2_0 (tensor2_of [[1::int], [1], [0]]) = 3"
    "size2_1 (tensor2_of [[1::int], [1], [0]]) = 1"
    "size2_0 (tensor2_of [[1::int], [0]]) = 2"
    "size2_1 (tensor2_of [[1::int], [0]]) = 1"
    by (simp_all add: tensor2_of_def output_of_def getitem0_def tensor3_of_def)
  from shape_mismatch_raises[of "tensor2_of [[1], [1], [0]]"
      "output_of [[[Finite 4]], [[Finite 6]]]"]
  have "mean_pooling (output_of [[[Finite 4]], [[Finite 6]]]) (tensor2_of [[1], [1], [0]]) =
      Inl RuntimeError"
    unfolding s by simp
  moreover
  from shape_mismatch_raises[of "tensor2_of [[1], [0]]" "output_of [[[Finite 4]], [[Finite 6]]]"]
  have "\<not> isl (mean_pooling (output_of [[[Finite 4]], [[Finite 6]]]) (tensor2_of [[1], [0]]))"
    unfolding s by simp
  ultimately show ?thesis by blast
qed

subsection \<open>Mask values other than 0 and 1\<close>

text \<open>
  C7, as stated, fails: with the mask row [2, 1] the call raises nothing. The value 2
  enters the weighted sum and the divisor: the tokens [3] and [0] pool to
  (3 * 2 + 0 * 1) / (2 + 1) = 2.
\<close>

theorem invalid_mask_counterexample:
  "at2 (tensor2_of [[2::int, 1]]) 0 0 \<notin> {0, 1} \<and>
   \<not> isl (mean_pooling (output_of [[[Finite 3], [Finite 0]]]) (tensor2_of [[2, 1]])) \<and>
   at2 (projr (mean_pooling (output_of [[[Finite 3], [Finite 0]]]) (tensor2_of [[2, 1]]))) 0 0 =
     Finite 2"
  by (simp add: mean_pooling_def expand_def expandable_def unsqueeze_last_def size3_def
      size2_def output_of_def getitem0_def tensor3_of_def tensor2_of_def float3_def mul3_def
      div2_def sum_dim1_def clamp_min_def Let_def numeral_2_eq_2)

text \<open>
  C7, amended. \<^verbatim>\<open>mean_pooling\<close> does not inspect the mask values: for a mask of the
  shape of the embeddings it raises nothing whatever integers the mask holds, and every
  mask value is the weight of its token in the sum and in the divisor.
\<close>

theorem mask_values_unchecked:
  assumes "size3 (getitem0 model_output) = (B, L, D)"
    and "size2 attention_mask = (B, L)"
  shows "\<not> isl (mean_pooling model_output attention_mask) \<and>
     (\<forall>b<B. \<forall>d<D. at2 (projr (mean_pooling model_output attention_mask)) b d =
        fdiv (fsum (\<lambda>l. fmul (at3 (getitem0 model_output) b l d)
                               (Finite (real_of_int (at2 attention_mask b l)))) L)
             (fclamp_min (fsum (\<lambda>l. Finite (real_of_int (at2 attention_mask b l))) L)
                         (1 / 10 ^ 9))) \<and>
     (\<forall>b<B. \<forall>d<D. \<forall>r. (\<forall>l<L. at3 (getitem0 model_output) b l d = Finite (r l)) \<longrightarrow>
        at2 (projr (mean_pooling model_output attention_mask)) b d =
          Finite ((\<Sum>l<L. r l * real_of_int (at2 attention_mask b l))
                  / max (\<Sum>l<L. real_of_int (at2 attention_mask b l)) (1 / 10 ^ 9)))"
proof -
  from assms have s: "size3_0 (getitem0 model_output) = B" "size3_1 (getitem0 model_output) = L"
    "size3_2 (getitem0 model_output) = D" "size2_0 attention_mask = B" "size2_1 attention_mask = L"
    by (simp_all add: size3_def size2_def)
  from mean_pooling_at[of attention_mask model_output] s
  obtain pooled where p: "mean_pooling model_output attention_mask = Inr pooled"
    and f: "\<And>b d. b < B \<Longrightarrow> at2 pooled b d =
        fdiv (fsum (\<lambda>l. fmul (at3 (getitem0 model_output) b l d)
                               (Finite (real_of_int (at2 attention_mask b l)))) L)
             (fclamp_min (fsum (\<lambda>l. Finite (real_of_int (at2 attention_mask b l))) L)
                         (1 / 10 ^ 9))"
    by auto
  have "at2 pooled b d =
          Finite ((\<Sum>l<L. r l * real_of_int (at2 attention_mask b l))
                  / max (\<Sum>l<L. real_of_int (at2 attention_mask b l)) (1 / 10 ^ 9))"
    if "b < B" and "\<forall>l<L. at3 (getitem0 model_output) b l d = Finite (r l)" for b d r
    unfolding f[OF that(1)] using that(2) by (intro finite_quotient) simp
  with p f show ?thesis by simp
qed

theorem mask_values_unchecked_witness:
  "\<not> isl (mean_pooling (output_of [[[Finite 3], [Finite 0]]]) (tensor2_of [[-7, 9]])) \<and>
   at2 (projr (mean_pooling (output_of [[[Finite 3], [Finite 0]]]) (tensor2_of [[-7, 9]]))) 0 0 =
     Finite (-21 / 2)"
proof -
  have "size3 (getitem0 (output_of [[[Finite 3], [Finite 0]]])) = (1, 2, 1)"
    "size2 (tensor2_of [[-7::int, 9]]) = (1, 2)"
    by (simp_all add: output_of_def getitem0_def size3_def size2_def tensor3_of_def
        tensor2_of_def)
  from mask_values_unchecked[OF this]
  have "\<not> isl (mean_pooling (output_of [[[Finite 3], [Finite 0]]]) (tensor2_of [[-7, 9]]))"
    and "at2 (projr (mean_pooling (output_of [[[Finite 3], [Finite 0]]]) (tensor2_of [[-7, 9]]))) 0 0 =
        fdiv (fsum (\<lambda>l. fmul (at3 (getitem0 (output_of [[[Finite 3], [Finite 0]]])) 0 l 0)
                               (Finite (real_of_int (at2 (tensor2_of [[-7, 9]]) 0 l)))) 2)
             (fclamp_min (fsum (\<lambda>l. Finite (real_of_int (at2 (tensor2_of [[-7, 9]]) 0 l))) 2)
                         (1 / 10 ^ 9))"
    by simp_all
  then show ?thesis
    by (simp add: output_of_def getitem0_def tensor3_of_def tensor2_of_def numeral_2_eq_2)
qed

subsection \<open>The response\<close>

lemma row0_tolist:
  assumes "0 < size2_0 t"
  shows "\<exists>v. row0 t = Inr v \<and> tolist v = map (at2 t 0) [0..<size2_1 t]"
  using assms by (simp add: row0_def tolist_def)

text \<open>
  C5. Whenever the tokenizer and the encoder return, for a batch of B >= 1 sentences, a
  mask of shape (B, L) and embeddings of shape (B, L, D), \<^verbatim>\<open>predict_fn\<close> returns the
  mapping whose only key is "vectors", and its value is row 0 of the normalised sentence
  embeddings as a list of D numbers. The rows 1 to B-1 are not part of the response.
\<close>

theorem predict_fn_returns_row0:
  assumes "tokenizer (fst (pop data ''inputs'' data)) = Inr encoded_input"
    and "model encoded_input = Inr model_output"
    and "encoded_input ''attention_mask'' = Some attention_mask"
    and "size3 (getitem0 model_output) = (B, L, D)"
    and "size2 attention_mask = (B, L)"
    and "0 < B"
  shows "\<exists>pooled. mean_pooling model_output attention_mask = Inr pooled \<and>
     fst (predict_fn data (model, tokenizer)) =
       Inr [''vectors'' \<mapsto> map (at2 (F_normalize pooled) 0) [0..<D]] \<and>
     dom [''vectors'' \<mapsto> map (at2 (F_normalize pooled) 0) [0..<D]] = {''vectors''}"
proof -
  from assms(4,5) have s: "size2_0 attention_mask = size3_0 (getitem0 model_output)"
    "size2_1 attention_mask = size3_1 (getitem0 model_output)"
    "size3_0 (getitem0 model_output) = B" "size3_2 (getitem0 model_output) = D"
    by (simp_all add: size3_def size2_def)
  from mean_pooling_at[OF s(1,2)] obtain pooled where
    p: "mean_pooling model_output attention_mask = Inr pooled"
    and ps: "size2_0 pooled = B" "size2_1 pooled = D"
    using s(3,4) by auto
  have ns: "size2_0 (F_normalize pooled) = B" "size2_1 (F_normalize pooled) = D"
    by (simp_all add: F_normalize_def ps)
  from row0_tolist[of "F_normalize pooled"] assms(6) obtain v where
    v: "row0 (F_normalize pooled) = Inr v"
    "tolist v = map (at2 (F_normalize pooled) 0) [0..<D]"
    by (auto simp add: ns)
  obtain sentences data' where pd: "pop data ''inputs'' data = (sentences, data')"
    by (cases "pop data ''inputs'' data")
  with assms(1) have t: "tokenizer sentences = Inr encoded_input"
    by simp
  have "fst (predict_fn data (model, tokenizer)) =
       Inr [''vectors'' \<mapsto> map (at2 (F_normalize pooled) 0) [0..<D]]"
    by (simp add: predict_fn_def pd t assms(2,3) getitem_def p v)
  with p show ?thesis by auto
qed

lemma F_normalize_at:
  "at2 (F_normalize t) b d = fdiv (at2 t b d) (fclamp_min (l2_norm t b) (1 / 10 ^ 12))"
  by (simp add: F_normalize_def)

lemma example_pooled:
  "\<exists>pooled. mean_pooling example_output example_mask = Inr pooled \<and> size2_1 pooled = 2 \<and>
     at2 pooled 0 0 = Finite 2 \<and> at2 pooled 0 1 = Finite 0"
proof -
  have s: "size2_0 example_mask = size3_0 (getitem0 example_output)"
    "size2_1 example_mask = size3_1 (getitem0 example_output)"
    using example_sizes by (simp_all add: size3_def size2_def)
  from mean_pooling_at[OF s] obtain pooled where
    "mean_pooling example_output example_mask = Inr pooled"
    "size2_1 pooled = size3_2 (getitem0 example_output)"
    and f: "\<And>b d. b < size3_0 (getitem0 example_output) \<Longrightarrow> at2 pooled b d =
       fdiv (fsum (\<lambda>l. fmul (at3 (getitem0 example_output) b l d)
                              (Finite (real_of_int (at2 example_mask b l))))
                  (size3_1 (getitem0 example_output)))
            (fclamp_min (fsum (\<lambda>l. Finite (real_of_int (at2 example_mask b l)))
                              (size3_1 (getitem0 example_output)))
                        (1 / 10 ^ 9))"
    by blast
  moreover have "at2 pooled 0 0 = Finite 2" "at2 pooled 0 1 = Finite 0"
    by (simp_all add: f example_output_def example_mask_def getitem0_def tensor3_of_def
        tensor2_of_def numeral_2_eq_2)
  moreover have "size3_2 (getitem0 example_output) = 2"
    using example_sizes by (simp add: size3_def)
  ultimately show ?thesis by auto
qed

theorem predict_fn_returns_row0_witness:
  "fst (predict_fn [''inputs'' \<mapsto> [''first sentence'', ''second one'']]
          (example_model, example_tokenizer)) = Inr [''vectors'' \<mapsto> [Finite 1, Finite 0]]"
proof -
  let ?data = "[''inputs'' \<mapsto> [''first sentence'', ''second one'']]"
  have "example_tokenizer (fst (pop ?data ''inputs'' ?data)) =
          Inr [''attention_mask'' \<mapsto> example_mask]"
    "example_model [''attention_mask'' \<mapsto> example_mask] = Inr example_output"
    "[''attention_mask'' \<mapsto> example_mask] ''attention_mask'' = Some example_mask"
    by (simp_all add: example_tokenizer_def example_model_def)
  from predict_fn_returns_row0[where tokenizer = example_tokenizer and data = ?data
      and model = example_model, OF this example_sizes]
  obtain pooled where p: "mean_pooling example_output example_mask = Inr pooled"
    and r: "fst (predict_fn ?data (example_model, example_tokenizer)) =
       Inr [''vectors'' \<mapsto> map (at2 (F_normalize pooled) 0) [0..<2]]"
    by auto
  from example_pooled p have a: "at2 pooled 0 0 = Finite 2" "at2 pooled 0 1 = Finite 0"
    and sz: "size2_1 pooled = 2"
    by auto
  from a have a': "at2 pooled 0 (Suc 0) = Finite 0" by simp
  have "l2_norm pooled 0 = Finite (sqrt 4)"
    by (simp add: l2_norm_def sz a a' numeral_2_eq_2)
  also have "sqrt 4 = sqrt (2\<^sup>2)" by simp
  also have "\<dots> = 2" by (simp del: power2_eq_square)
  finally have n: "l2_norm pooled 0 = Finite 2" .
  have "[0..<2] = [0, Suc 0]"
    by (simp add: numeral_2_eq_2)
  then have "map (at2 (F_normalize pooled) 0) [0..<2] = [Finite 1, Finite 0]"
    using a by (simp add: F_normalize_at n)
  with r show ?thesis by simp
qed

subsection \<open>The request mapping\<close>

text \<open>
  C9. \<^verbatim>\<open>predict_fn\<close> changes the request mapping it is given. When the mapping has the
  key "inputs", the call leaves it without that key and with every other key as it was,
  and the tokenizer receives the value of "inputs". When the key is absent, the mapping
  is left as it was and the tokenizer receives the mapping itself. In both cases this
  holds whether the call returns or raises.
\<close>

theorem predict_fn_pops_inputs:
  "(\<forall>v. data ''inputs'' = Some v \<longrightarrow>
       snd (predict_fn data (model, tokenizer)) = data(''inputs'' := None) \<and>
       snd (predict_fn data (model, tokenizer)) ''inputs'' = None \<and>
       (\<forall>k. k \<noteq> ''inputs'' \<longrightarrow> snd (predict_fn data (model, tokenizer)) k = data k) \<and>
       fst (pop data ''inputs'' data) = Found v \<and>
       fst (predict_fn data (model, tokenizer)) =
         fst (predict_fn data (model, \<lambda>sentences. tokenizer (Found v)))) \<and>
   (data ''inputs'' = None \<longrightarrow>
       snd (predict_fn data (model, tokenizer)) = data \<and>
       fst (pop data ''inputs'' data) = Default data \<and>
       fst (predict_fn data (model, tokenizer)) =
         fst (predict_fn data (model, \<lambda>sentences. tokenizer (Default data))))"
  by (simp add: predict_fn_def pop_def split: prod.splits)

theorem predict_fn_pops_inputs_witness:
  "snd (predict_fn [''inputs'' \<mapsto> [''first sentence''], ''top_k'' \<mapsto> [''3'']]
          (example_model, example_tokenizer)) = [''top_k'' \<mapsto> [''3'']] \<and>
   snd (predict_fn [''top_k'' \<mapsto> [''3'']] (example_model, example_tokenizer)) =
     [''top_k'' \<mapsto> [''3'']]"
proof -
  have a: "[''inputs'' \<mapsto> [''first sentence''], ''top_k'' \<mapsto> [''3'']] ''inputs'' =
      Some [''first sentence'']"
    by simp
  have b: "[''top_k'' \<mapsto> [''3'']] ''inputs'' = None"
    by simp
  have c: "[''inputs'' \<mapsto> [''first sentence''], ''top_k'' \<mapsto> [''3'']](''inputs'' := None) =
      [''top_k'' \<mapsto> [''3'']]"
    by (rule ext) simp
  from predict_fn_pops_inputs[of "[''inputs'' \<mapsto> [''first sentence''], ''top_k'' \<mapsto> [''3'']]"
      example_model example_tokenizer] a
  have "snd (predict_fn [''inputs'' \<mapsto> [''first sentence''], ''top_k'' \<mapsto> [''3'']]
          (example_model, example_tokenizer)) =
        [''inputs'' \<mapsto> [''first sentence''], ''top_k'' \<mapsto> [''3'']](''inputs'' := None)"
    by blast
  moreover from predict_fn_pops_inputs[of "[''top_k'' \<mapsto> [''3'']]"
      example_model example_tokenizer] b
  have "snd (predict_fn [''top_k'' \<mapsto> [''3'']] (example_model, example_tokenizer)) =
     [''top_k'' \<mapsto> [''3'']]"
    by blast
  ultimately show ?thesis unfolding c by blast
qed

subsection \<open>A fully padded row\<close>

lemma isfinite_row:
  assumes "\<forall>d<D. isfinite (f d)"
  shows "\<exists>x. \<forall>d<D. f d = Finite (x d)"
proof (intro exI allI impI)
  fix d assume "d < D"
  with assms obtain a where "f d = Finite a" by (auto simp add: isfinite_iff)
  then show "f d = Finite (case f d of Finite a \<Rightarrow> a | _ \<Rightarrow> 0)" by simp
qed

lemma fdiv_Finite: "b \<noteq> 0 \<Longrightarrow> fdiv (Finite a) (Finite b) = Finite (a / b)"
  by simp

lemma max_floor_pos: "0 < max (a::real) (1 / 10 ^ 12)"
proof -
  have "(0::real) < 1 / 10 ^ 12" by simp
  also have "\<dots> \<le> max a (1 / 10 ^ 12)" by (rule max.cobounded2)
  finally show ?thesis .
qed

lemma finite_row_norm:
  assumes "\<And>d. d < size2_1 t \<Longrightarrow> at2 t b d = Finite (x d)"
  shows "l2_norm t b = Finite (sqrt (\<Sum>d<size2_1 t. (x d)\<^sup>2))"
proof -
  have "fsum (\<lambda>d. fmul (at2 t b d) (at2 t b d)) (size2_1 t) = Finite (\<Sum>d<size2_1 t. (x d)\<^sup>2)"
    by (rule fsum_Finite) (simp add: assms power2_eq_square)
  moreover have "\<not> (\<Sum>d<size2_1 t. (x d)\<^sup>2) < 0"
    by (simp add: not_less sum_nonneg)
  ultimately show ?thesis by (simp add: l2_norm_def)
qed

lemma finite_row_normalize:
  assumes "\<And>d. d < size2_1 t \<Longrightarrow> at2 t b d = Finite (x d)"
    and "d < size2_1 t"
  shows "at2 (F_normalize t) b d =
     Finite (x d / max (sqrt (\<Sum>d<size2_1 t. (x d)\<^sup>2)) (1 / 10 ^ 12))"
proof -
  let ?c = "max (sqrt (\<Sum>d<size2_1 t. (x d)\<^sup>2)) (1 / 10 ^ 12)"
  have c: "?c \<noteq> 0"
    using max_floor_pos[of "sqrt (\<Sum>d<size2_1 t. (x d)\<^sup>2)"] by linarith
  have n: "l2_norm t b = Finite (sqrt (\<Sum>d<size2_1 t. (x d)\<^sup>2))"
    by (rule finite_row_norm) (rule assms(1))
  have "at2 (F_normalize t) b d = fdiv (Finite (x d)) (fclamp_min (Finite (sqrt (\<Sum>d<size2_1 t. (x d)\<^sup>2))) (1 / 10 ^ 12))"
    by (simp only: F_normalize_at n assms(1)[OF assms(2)])
  also have "\<dots> = fdiv (Finite (x d)) (Finite ?c)"
    by (simp only: fclamp_min.simps)
  also have "\<dots> = Finite (x d / ?c)"
    using c by (rule fdiv_Finite)
  finally show ?thesis .
qed

lemma finite_row_normalize_norm:
  assumes "\<And>d. d < size2_1 t \<Longrightarrow> at2 t b d = Finite (x d)"
  shows "l2_norm (F_normalize t) b =
     Finite (sqrt (\<Sum>d<size2_1 t. (x d)\<^sup>2) /
             max (sqrt (\<Sum>d<size2_1 t. (x d)\<^sup>2)) (1 / 10 ^ 12))"
proof -
  let ?S = "\<Sum>d<size2_1 t. (x d)\<^sup>2"
  let ?c = "max (sqrt ?S) (1 / 10 ^ 12)"
  have c: "0 < ?c" by (rule max_floor_pos)
  have sz: "size2_1 (F_normalize t) = size2_1 t" by (simp add: F_normalize_def)
  have "l2_norm (F_normalize t) b = Finite (sqrt (\<Sum>d<size2_1 (F_normalize t). (x d / ?c)\<^sup>2))"
    by (rule finite_row_norm) (simp add: sz finite_row_normalize[of t b x, OF assms])
  also have "(\<Sum>d<size2_1 (F_normalize t). (x d / ?c)\<^sup>2) = ?S / ?c\<^sup>2"
    by (simp add: sz power_divide sum_divide_distrib)
  also have "sqrt (?S / ?c\<^sup>2) = sqrt ?S / ?c"
    using c by (simp add: real_sqrt_divide)
  finally show ?thesis .
qed

text \<open>
  C2, as stated, fails: the row is masked by multiplication, and \<^verbatim>\<open>inf * 0\<close> is
  \<^verbatim>\<open>nan\<close>. A fully padded row whose token embedding holds \<^verbatim>\<open>inf\<close> pools to a row
  with \<^verbatim>\<open>nan\<close>, and normalisation turns the whole row into \<^verbatim>\<open>nan\<close>.
\<close>

theorem padded_row_counterexample:
  "at2 (tensor2_of [[0::int]]) 0 0 = 0 \<and>
   \<not> isl (mean_pooling (output_of [[[PosInf, Finite 5]]]) (tensor2_of [[0]])) \<and>
   at2 (projr (mean_pooling (output_of [[[PosInf, Finite 5]]]) (tensor2_of [[0]]))) 0 0 = NaN \<and>
   at2 (projr (mean_pooling (output_of [[[PosInf, Finite 5]]]) (tensor2_of [[0]]))) 0 1 =
     Finite 0 \<and>
   at2 (F_normalize (projr (mean_pooling (output_of [[[PosInf, Finite 5]]])
     (tensor2_of [[0]])))) 0 0 = NaN \<and>
   at2 (F_normalize (projr (mean_pooling (output_of [[[PosInf, Finite 5]]])
     (tensor2_of [[0]])))) 0 1 = NaN"
  by (simp add: mean_pooling_def expand_def expandable_def unsqueeze_last_def size3_def
      size2_def output_of_def getitem0_def tensor3_of_def tensor2_of_def float3_def mul3_def
      div2_def sum_dim1_def clamp_min_def Let_def F_normalize_def l2_norm_def numeral_2_eq_2)

text \<open>
  C2, amended. When every mask entry of row b is zero and the token embeddings of that
  row are finite, \<^verbatim>\<open>mean_pooling\<close> returns (no exception) a tensor of shape (B, D)
  whose row b is zero, and \<^verbatim>\<open>F.normalize\<close> returns a tensor of that shape whose row b
  is zero. The floors make this so: the pooling divides the zero sums by 1e-9 and the
  normalisation divides the zero row by 1e-12, where a zero divisor would give
  \<^verbatim>\<open>nan\<close>.
\<close>

theorem padded_row_zero:
  assumes "size3 (getitem0 model_output) = (B, L, D)"
    and "size2 attention_mask = (B, L)"
    and "b < B"
    and "\<forall>l<L. at2 attention_mask b l = 0"
    and "\<forall>l<L. \<forall>d<D. isfinite (at3 (getitem0 model_output) b l d)"
  shows "\<exists>pooled. mean_pooling model_output attention_mask = Inr pooled \<and>
     size2 pooled = (B, D) \<and> size2 (F_normalize pooled) = (B, D) \<and>
     (\<forall>d<D. at2 pooled b d = Finite 0 \<and> at2 (F_normalize pooled) b d = Finite 0)"
proof -
  from assms(1,2) have s: "size3_0 (getitem0 model_output) = B"
    "size3_1 (getitem0 model_output) = L" "size3_2 (getitem0 model_output) = D"
    "size2_0 attention_mask = B" "size2_1 attention_mask = L"
    by (simp_all add: size3_def size2_def)
  have "\<exists>pooled. mean_pooling model_output attention_mask = Inr pooled \<and>
     size2_0 pooled = B \<and> size2_1 pooled = D \<and>
     (\<forall>b<B. \<forall>d. at2 pooled b d =
        fdiv (fsum (\<lambda>l. fmul (at3 (getitem0 model_output) b l d)
                               (Finite (real_of_int (at2 attention_mask b l)))) L)
             (fclamp_min (fsum (\<lambda>l. Finite (real_of_int (at2 attention_mask b l))) L)
                         (1 / 10 ^ 9)))"
    using mean_pooling_at[of attention_mask model_output] unfolding s by simp
  then obtain pooled where p: "mean_pooling model_output attention_mask = Inr pooled"
    and sz: "size2_0 pooled = B" "size2_1 pooled = D"
    and f: "\<And>d. at2 pooled b d =
        fdiv (fsum (\<lambda>l. fmul (at3 (getitem0 model_output) b l d)
                               (Finite (real_of_int (at2 attention_mask b l)))) L)
             (fclamp_min (fsum (\<lambda>l. Finite (real_of_int (at2 attention_mask b l))) L)
                         (1 / 10 ^ 9))"
    using assms(3) by blast
  have z: "at2 pooled b d = Finite 0" if d: "d < D" for d
  proof -
    from assms(5) d have "\<forall>l<L. isfinite (at3 (getitem0 model_output) b l d)" by simp
    from isfinite_row[OF this]
    obtain r where r: "\<forall>l<L. at3 (getitem0 model_output) b l d = Finite (r l)" ..
    have "at2 pooled b d =
        Finite ((\<Sum>l<L. r l * real_of_int (at2 attention_mask b l))
                / max (\<Sum>l<L. real_of_int (at2 attention_mask b l)) (1 / 10 ^ 9))"
      unfolding f using r by (intro finite_quotient) simp
    then show ?thesis using assms(4) by simp
  qed
  have nz: "at2 (F_normalize pooled) b d = Finite 0" if d: "d < D" for d
  proof -
    have "at2 (F_normalize pooled) b d =
        Finite (0 / max (sqrt (\<Sum>d<size2_1 pooled. 0\<^sup>2)) (1 / 10 ^ 12))"
      by (rule finite_row_normalize[where x = "\<lambda>d. 0"]) (simp_all add: z sz d)
    then show ?thesis by simp
  qed
  have "size2 pooled = (B, D)" "size2 (F_normalize pooled) = (B, D)"
    by (simp_all add: size2_def sz F_normalize_def)
  moreover have "\<forall>d<D. at2 pooled b d = Finite 0 \<and> at2 (F_normalize pooled) b d = Finite 0"
    by (simp add: z nz)
  ultimately show ?thesis using p by (intro exI[of _ pooled]) simp
qed

theorem padded_row_zero_witness:
  "\<exists>pooled. mean_pooling (output_of [[[Finite 5, Finite 5]]]) (tensor2_of [[0]]) = Inr pooled \<and>
     at2 pooled 0 0 = Finite 0 \<and> at2 pooled 0 1 = Finite 0 \<and>
     at2 (F_normalize pooled) 0 0 = Finite 0 \<and> at2 (F_normalize pooled) 0 1 = Finite 0"
proof -
  have "size3 (getitem0 (output_of [[[Finite 5, Finite 5]]])) = (1, 1, 2)"
    "size2 (tensor2_of [[0::int]]) = (1, 1)" "(0::nat) < 1"
    "\<forall>l<1::nat. at2 (tensor2_of [[0::int]]) 0 l = 0"
    "\<forall>l<1. \<forall>d<2. isfinite (at3 (getitem0 (output_of [[[Finite 5, Finite 5]]])) 0 l d)"
    by (simp_all add: output_of_def getitem0_def size3_def size2_def tensor3_of_def
        tensor2_of_def less_2_cases_iff)
  from padded_row_zero[OF this] obtain pooled where
    "mean_pooling (output_of [[[Finite 5, Finite 5]]]) (tensor2_of [[0]]) = Inr pooled"
    "\<forall>d<2. at2 pooled 0 d = Finite 0 \<and> at2 (F_normalize pooled) 0 d = Finite 0"
    by blast
  then show ?thesis by auto
qed

subsection \<open>Padding has no influence\<close>

text \<open>
  C3, as stated, fails: two batches that agree where the mask is 1 and differ at a masked
  position pool differently when the masked value is \<^verbatim>\<open>inf\<close>, since \<^verbatim>\<open>inf * 0\<close> is
  \<^verbatim>\<open>nan\<close>: the rows pool to [1, 0] and to [nan, 0].
\<close>

theorem masked_positions_counterexample:
  "at2 (tensor2_of [[1::int, 0]]) 0 0 = 1 \<and> at2 (tensor2_of [[1::int, 0]]) 0 1 = 0 \<and>
   at3 (getitem0 (output_of [[[Finite 1, Finite 0], [Finite 3, Finite 0]]])) 0 0 0 =
     at3 (getitem0 (output_of [[[Finite 1, Finite 0], [PosInf, Finite 0]]])) 0 0 0 \<and>
   at3 (getitem0 (output_of [[[Finite 1, Finite 0], [Finite 3, Finite 0]]])) 0 0 1 =
     at3 (getitem0 (output_of [[[Finite 1, Finite 0], [PosInf, Finite 0]]])) 0 0 1 \<and>
   at2 (projr (mean_pooling (output_of [[[Finite 1, Finite 0], [Finite 3, Finite 0]]])
     (tensor2_of [[1, 0]]))) 0 0 = Finite 1 \<and>
   at2 (projr (mean_pooling (output_of [[[Finite 1, Finite 0], [PosInf, Finite 0]]])
     (tensor2_of [[1, 0]]))) 0 0 = NaN"
  by (simp add: mean_pooling_def expand_def expandable_def unsqueeze_last_def size3_def
      size2_def output_of_def getitem0_def tensor3_of_def tensor2_of_def float3_def mul3_def
      div2_def sum_dim1_def clamp_min_def Let_def numeral_2_eq_2)

text \<open>
  C3, amended. For a mask row with entries in {0, 1} and two embedding batches that agree
  wherever that row is 1 and hold finite values, however different, wherever it is 0,
  \<^verbatim>\<open>mean_pooling\<close> returns the same pooled row: finite values at the positions masked
  with 0 do not reach the result.
\<close>

theorem masked_positions_no_influence:
  assumes "size3 (getitem0 out1) = (B, L, D)"
    and "size3 (getitem0 out2) = (B, L, D)"
    and "size2 attention_mask = (B, L)"
    and "b < B"
    and "\<forall>l<L. at2 attention_mask b l \<in> {0, 1}"
    and "\<forall>l<L. at2 attention_mask b l = 1 \<longrightarrow>
           (\<forall>d<D. at3 (getitem0 out1) b l d = at3 (getitem0 out2) b l d)"
    and "\<forall>l<L. at2 attention_mask b l = 0 \<longrightarrow>
           (\<forall>d<D. isfinite (at3 (getitem0 out1) b l d) \<and> isfinite (at3 (getitem0 out2) b l d))"
  shows "\<exists>p1 p2. mean_pooling out1 attention_mask = Inr p1 \<and>
     mean_pooling out2 attention_mask = Inr p2 \<and>
     size2 p1 = (B, D) \<and> size2 p2 = (B, D) \<and> (\<forall>d<D. at2 p1 b d = at2 p2 b d)"
proof -
  obtain p1 where p1: "mean_pooling out1 attention_mask = Inr p1" "size2 p1 = (B, D)"
    and f1: "\<And>d. at2 p1 b d =
        fdiv (fsum (\<lambda>l. fmul (at3 (getitem0 out1) b l d)
                               (Finite (real_of_int (at2 attention_mask b l)))) L)
             (fclamp_min (fsum (\<lambda>l. Finite (real_of_int (at2 attention_mask b l))) L)
                         (1 / 10 ^ 9))"
    using mean_pooling_at[of attention_mask out1] assms(1,3,4)
    by (auto simp add: size3_def size2_def)
  obtain p2 where p2: "mean_pooling out2 attention_mask = Inr p2" "size2 p2 = (B, D)"
    and f2: "\<And>d. at2 p2 b d =
        fdiv (fsum (\<lambda>l. fmul (at3 (getitem0 out2) b l d)
                               (Finite (real_of_int (at2 attention_mask b l)))) L)
             (fclamp_min (fsum (\<lambda>l. Finite (real_of_int (at2 attention_mask b l))) L)
                         (1 / 10 ^ 9))"
    using mean_pooling_at[of attention_mask out2] assms(2,3,4)
    by (auto simp add: size3_def size2_def)
  have "at2 p1 b d = at2 p2 b d" if d: "d < D" for d
  proof -
    have "fsum (\<lambda>l. fmul (at3 (getitem0 out1) b l d)
                               (Finite (real_of_int (at2 attention_mask b l)))) L =
          fsum (\<lambda>l. fmul (at3 (getitem0 out2) b l d)
                               (Finite (real_of_int (at2 attention_mask b l)))) L"
    proof (rule fsum_cong)
      fix l assume l: "l < L"
      with assms(5) consider "at2 attention_mask b l = 1" | "at2 attention_mask b l = 0"
        by auto
      then show "fmul (at3 (getitem0 out1) b l d) (Finite (real_of_int (at2 attention_mask b l))) =
            fmul (at3 (getitem0 out2) b l d) (Finite (real_of_int (at2 attention_mask b l)))"
      proof cases
        case 1
        with assms(6) l d show ?thesis by simp
      next
        case 2
        with assms(7) l d have "isfinite (at3 (getitem0 out1) b l d)"
          "isfinite (at3 (getitem0 out2) b l d)"
          by blast+
        then obtain u v where "at3 (getitem0 out1) b l d = Finite u"
          "at3 (getitem0 out2) b l d = Finite v"
          unfolding isfinite_iff by blast
        with 2 show ?thesis by simp
      qed
    qed
    then show ?thesis by (simp add: f1 f2)
  qed
  with p1 p2 show ?thesis by blast
qed

theorem masked_positions_no_influence_witness:
  "\<exists>p1 p2. mean_pooling (output_of [[[Finite 1, Finite 0], [Finite 3, Finite 0]]])
       (tensor2_of [[1, 0]]) = Inr p1 \<and>
     mean_pooling (output_of [[[Finite 1, Finite 0], [Finite (-8), Finite 42]]])
       (tensor2_of [[1, 0]]) = Inr p2 \<and>
     at2 p1 0 0 = at2 p2 0 0 \<and> at2 p1 0 1 = at2 p2 0 1"
proof -
  let ?o1 = "output_of [[[Finite 1, Finite 0], [Finite 3, Finite 0]]]"
  let ?o2 = "output_of [[[Finite 1, Finite 0], [Finite (-8), Finite 42]]]"
  let ?m = "tensor2_of [[1::int, 0]]"
  have "size3 (getitem0 ?o1) = (1, 2, 2)" "size3 (getitem0 ?o2) = (1, 2, 2)"
    "size2 ?m = (1, 2)" "(0::nat) < 1"
    by (simp_all add: output_of_def getitem0_def size3_def size2_def tensor3_of_def
        tensor2_of_def)
  moreover have "\<forall>l<2. at2 ?m 0 l \<in> {0, 1}"
    by (simp add: tensor2_of_def less_2_cases_iff)
  moreover have "\<forall>l<2. at2 ?m 0 l = 1 \<longrightarrow>
      (\<forall>d<2. at3 (getitem0 ?o1) 0 l d = at3 (getitem0 ?o2) 0 l d)"
    by (simp add: tensor2_of_def output_of_def getitem0_def tensor3_of_def less_2_cases_iff)
  moreover have "\<forall>l<2. at2 ?m 0 l = 0 \<longrightarrow>
      (\<forall>d<2. isfinite (at3 (getitem0 ?o1) 0 l d) \<and> isfinite (at3 (getitem0 ?o2) 0 l d))"
    by (simp add: tensor2_of_def output_of_def getitem0_def tensor3_of_def less_2_cases_iff)
  ultimately have "\<exists>p1 p2. mean_pooling ?o1 ?m = Inr p1 \<and> mean_pooling ?o2 ?m = Inr p2 \<and>
     size2 p1 = (1, 2) \<and> size2 p2 = (1, 2) \<and> (\<forall>d<2. at2 p1 0 d = at2 p2 0 d)"
    by (rule masked_positions_no_influence)
  then show ?thesis by auto
qed

subsection \<open>Normalisation\<close>

lemma sqrt_scaled:
  assumes "0 < (c::real)"
  shows "sqrt (\<Sum>d<(D::nat). (x d / c)\<^sup>2) = sqrt (\<Sum>d<D. (x d)\<^sup>2) / c"
proof -
  have "(\<Sum>d<D. (x d / c)\<^sup>2) = (\<Sum>d<D. (x d)\<^sup>2) / c\<^sup>2"
    by (simp add: power_divide sum_divide_distrib)
  then show ?thesis using assms by (simp add: real_sqrt_divide)
qed

lemma finite_row_normalize_twice:
  assumes "\<And>d. d < size2_1 t \<Longrightarrow> at2 t b d = Finite (x d)"
    and "d < size2_1 t"
  shows "at2 (F_normalize (F_normalize t)) b d =
     Finite (x d / max (sqrt (\<Sum>d<size2_1 t. (x d)\<^sup>2)) (1 / 10 ^ 12)
             / max (sqrt (\<Sum>d<size2_1 t. (x d)\<^sup>2)
                    / max (sqrt (\<Sum>d<size2_1 t. (x d)\<^sup>2)) (1 / 10 ^ 12))
                   (1 / 10 ^ 12))"
proof -
  let ?c = "max (sqrt (\<Sum>d<size2_1 t. (x d)\<^sup>2)) (1 / 10 ^ 12)"
  have c: "0 < ?c" by (rule max_floor_pos)
  have sz: "size2_1 (F_normalize t) = size2_1 t" by (simp add: F_normalize_def)
  have "at2 (F_normalize (F_normalize t)) b d =
     Finite (x d / ?c / max (sqrt (\<Sum>d<size2_1 (F_normalize t). (x d / ?c)\<^sup>2)) (1 / 10 ^ 12))"
    by (rule finite_row_normalize[where x = "\<lambda>d. x d / ?c"])
      (simp_all only: sz finite_row_normalize[of t b x, OF assms(1)] assms(2))
  then show ?thesis
    unfolding sz sqrt_scaled[OF c] .
qed

lemma zero_norm_row:
  assumes "sqrt (\<Sum>d<(D::nat). (x d)\<^sup>2) = 0" and "d < D"
  shows "x d = (0::real)"
proof -
  from assms(1) have "(\<Sum>d<D. (x d)\<^sup>2) = 0" by simp
  then have "\<forall>d\<in>{..<D}. (x d)\<^sup>2 = 0"
    by (subst (asm) sum_nonneg_eq_0_iff) simp_all
  with assms(2) show ?thesis by simp
qed

lemma positive_norm_row:
  assumes "0 < sqrt (\<Sum>d<(D::nat). (x d)\<^sup>2)"
  shows "\<exists>d<D. x d \<noteq> (0::real)"
proof (rule ccontr)
  assume "\<not> (\<exists>d<D. x d \<noteq> 0)"
  then have "\<forall>d\<in>{..<D}. (x d)\<^sup>2 = 0" by simp
  then have "(\<Sum>d<D. (x d)\<^sup>2) = 0" by (rule sum.neutral)
  with assms show False by simp
qed

lemma sqrt_25: "sqrt 25 = 5"
proof -
  have "sqrt 25 = sqrt (5\<^sup>2)" by simp
  also have "\<dots> = 5" by (simp del: power2_eq_square)
  finally show ?thesis .
qed

lemma tiny_pos: "0 < tiny" and tiny_below_floor: "tiny < 1 / 10 ^ 12"
  by (simp_all add: tiny_def)

lemma abs_tiny: "\<bar>tiny\<bar> = tiny"
  using tiny_pos by (rule abs_of_pos)

lemma max_tiny: "max tiny (1 / 10 ^ 12) = 1 / 10 ^ 12"
  using tiny_below_floor by (simp add: max_def)

lemma sqrt_hundredth: "sqrt (1 / 100) = 1 / 10"
  by (rule real_sqrt_unique) (simp_all add: power2_eq_square)

lemma fsum_1: "fsum f 1 = fadd (Finite 0) (f 0)"
  by simp

lemma fsum_2: "fsum f 2 = fadd (fadd (Finite 0) (f 0)) (f (Suc 0))"
  by (simp add: numeral_2_eq_2)

lemma example_matrix_at:
  "size2_0 example_matrix = 3" "size2_1 example_matrix = 2"
  "at2 example_matrix 0 0 = Finite 3" "at2 example_matrix 0 (Suc 0) = Finite 4"
  "at2 example_matrix (Suc 0) 0 = Finite 0" "at2 example_matrix (Suc 0) (Suc 0) = Finite 0"
  "at2 example_matrix 2 0 = Finite tiny" "at2 example_matrix 2 (Suc 0) = Finite 0"
  by (simp_all add: example_matrix_def tensor2_of_def)

lemma example_matrix_finite:
  "\<forall>b<size2_0 example_matrix. \<forall>d<size2_1 example_matrix. isfinite (at2 example_matrix b d)"
  by (simp add: example_matrix_def tensor2_of_def numeral_3_eq_3 numeral_2_eq_2 less_Suc_eq)

lemma example_matrix_norm:
  "l2_norm example_matrix 0 = Finite 5"
  "l2_norm example_matrix (Suc 0) = Finite 0"
  "l2_norm example_matrix 2 = Finite tiny"
  unfolding l2_norm_def example_matrix_at fsum_2
  by (simp_all add: sqrt_25 abs_tiny)

lemma tiny_row_at: "size2_1 tiny_row = 1" "at2 tiny_row 0 0 = Finite tiny"
  by (simp_all add: tiny_row_def tensor2_of_def)

lemma l2_norm_tiny: "l2_norm tiny_row 0 = Finite tiny"
  unfolding l2_norm_def tiny_row_at fsum_1 by (simp add: abs_tiny)

lemma F_normalize_tiny:
  "at2 (F_normalize tiny_row) 0 0 = Finite (1 / 10)"
  "l2_norm (F_normalize tiny_row) 0 = Finite (1 / 10)"
proof -
  show b: "at2 (F_normalize tiny_row) 0 0 = Finite (1 / 10)"
    unfolding F_normalize_at l2_norm_tiny tiny_row_at fclamp_min.simps max_tiny
    by (simp add: tiny_def)
  have "size2_1 (F_normalize tiny_row) = 1"
    by (simp add: F_normalize_def tiny_row_at)
  then show "l2_norm (F_normalize tiny_row) 0 = Finite (1 / 10)"
    by (simp add: l2_norm_def b sqrt_hundredth)
qed

text \<open>
  C4, as stated, fails: a row of norm 1e-13 is not zero, yet \<^verbatim>\<open>F.normalize\<close> divides it
  by the floor 1e-12 and not by its norm, and the result has norm 0.1.
\<close>

theorem unit_norm_counterexample:
  "l2_norm tiny_row 0 = Finite tiny \<and>
   l2_norm tiny_row 0 \<noteq> Finite 0 \<and>
   fdiv (at2 tiny_row 0 0) (l2_norm tiny_row 0) = Finite 1 \<and>
   at2 (F_normalize tiny_row) 0 0 = Finite (1 / 10) \<and>
   l2_norm (F_normalize tiny_row) 0 = Finite (1 / 10) \<and>
   l2_norm (F_normalize tiny_row) 0 \<noteq> Finite 1"
  unfolding F_normalize_tiny l2_norm_tiny tiny_row_at using tiny_pos by simp

text \<open>
  C4, amended. Up to the rounding of float32: the L2 norm of a row of finite values is a
  number n >= 0, and \<^verbatim>\<open>F.normalize\<close> keeps the shape. If n is at least the floor
  1e-12, and the sum of squares n^2 does not exceed the largest float32 number (it does
  not overflow), \<^verbatim>\<open>F.normalize\<close> returns the row divided by its own norm n, and the
  result has norm 1. If 0 < n < 1e-12, it returns the row divided by 1e-12, and the
  result has the norm n * 1e12, which is below 1.
\<close>

theorem unit_norm_above_floor:
  assumes "\<forall>d<size2_1 pooled. isfinite (at2 pooled b d)"
  shows "\<exists>n. l2_norm pooled b = Finite n \<and> 0 \<le> n \<and>
    size2 (F_normalize pooled) = size2 pooled \<and>
    (1 / 10 ^ 12 \<le> n \<and> n\<^sup>2 \<le> flt_max \<longrightarrow>
       (\<forall>d<size2_1 pooled. at2 (F_normalize pooled) b d = fdiv (at2 pooled b d) (Finite n)) \<and>
       l2_norm (F_normalize pooled) b = Finite 1) \<and>
    (0 < n \<and> n < 1 / 10 ^ 12 \<longrightarrow>
       (\<forall>d<size2_1 pooled.
          at2 (F_normalize pooled) b d = fdiv (at2 pooled b d) (Finite (1 / 10 ^ 12))) \<and>
       l2_norm (F_normalize pooled) b = Finite (n * 10 ^ 12) \<and> n * 10 ^ 12 < 1)"
proof -
  from isfinite_row[OF assms]
  obtain x where "\<forall>d<size2_1 pooled. at2 pooled b d = Finite (x d)" ..
  then have x: "\<And>d. d < size2_1 pooled \<Longrightarrow> at2 pooled b d = Finite (x d)" by simp
  define n where "n = sqrt (\<Sum>d<size2_1 pooled. (x d)\<^sup>2)"
  have n: "l2_norm pooled b = Finite n"
    unfolding n_def by (rule finite_row_norm) (rule x)
  have n0: "0 \<le> n" by (simp add: n_def sum_nonneg)
  have sz: "size2 (F_normalize pooled) = size2 pooled"
    by (simp add: F_normalize_def size2_def)
  have nn: "l2_norm (F_normalize pooled) b = Finite (n / max n (1 / 10 ^ 12))"
    unfolding n_def by (rule finite_row_normalize_norm) (rule x)
  have hi: "(\<forall>d<size2_1 pooled. at2 (F_normalize pooled) b d = fdiv (at2 pooled b d) (Finite n)) \<and>
       l2_norm (F_normalize pooled) b = Finite 1"
    if "1 / 10 ^ 12 \<le> n"
  proof -
    from that have m: "max n (1 / 10 ^ 12) = n" by (simp add: max_def)
    have "0 < (1 / 10 ^ 12 :: real)" by simp
    with that have "0 < n" by linarith
    then have "l2_norm (F_normalize pooled) b = Finite 1"
      unfolding nn m by simp
    moreover have "at2 (F_normalize pooled) b d = fdiv (at2 pooled b d) (Finite n)" for d
      unfolding F_normalize_at n fclamp_min.simps m ..
    ultimately show ?thesis by blast
  qed
  have lo: "(\<forall>d<size2_1 pooled.
          at2 (F_normalize pooled) b d = fdiv (at2 pooled b d) (Finite (1 / 10 ^ 12))) \<and>
       l2_norm (F_normalize pooled) b = Finite (n * 10 ^ 12) \<and> n * 10 ^ 12 < 1"
    if "0 < n" "n < 1 / 10 ^ 12"
  proof -
    from that have m: "max n (1 / 10 ^ 12) = 1 / 10 ^ 12" by (simp add: max_def)
    have "l2_norm (F_normalize pooled) b = Finite (n * 10 ^ 12)"
      unfolding nn m by simp
    moreover have "at2 (F_normalize pooled) b d = fdiv (at2 pooled b d) (Finite (1 / 10 ^ 12))"
      for d
      unfolding F_normalize_at n fclamp_min.simps m ..
    moreover from that(2) have "n * 10 ^ 12 < 1" by simp
    ultimately show ?thesis by blast
  qed
  from n n0 sz hi lo show ?thesis by blast
qed

theorem unit_norm_above_floor_witness:
  "at2 (F_normalize example_matrix) 0 0 = Finite (3 / 5) \<and>
   at2 (F_normalize example_matrix) 0 1 = Finite (4 / 5) \<and>
   l2_norm (F_normalize example_matrix) 0 = Finite 1 \<and>
   at2 (F_normalize example_matrix) 2 0 = Finite (1 / 10) \<and>
   l2_norm (F_normalize example_matrix) 2 = Finite (1 / 10)"
proof -
  have f0: "\<forall>d<size2_1 example_matrix. isfinite (at2 example_matrix 0 d)"
    and f2: "\<forall>d<size2_1 example_matrix. isfinite (at2 example_matrix 2 d)"
    using example_matrix_finite by (simp_all add: example_matrix_at)
  have big: "1 / 10 ^ 12 \<le> (5::real) \<and> (5::real)\<^sup>2 \<le> flt_max"
    by (simp add: flt_max_def)
  from unit_norm_above_floor[OF f0] obtain n where
    "l2_norm example_matrix 0 = Finite n"
    and "1 / 10 ^ 12 \<le> n \<and> n\<^sup>2 \<le> flt_max \<longrightarrow>
       (\<forall>d<size2_1 example_matrix.
          at2 (F_normalize example_matrix) 0 d = fdiv (at2 example_matrix 0 d) (Finite n)) \<and>
       l2_norm (F_normalize example_matrix) 0 = Finite 1"
    by blast
  moreover from this(1) have "n = 5" unfolding example_matrix_norm by simp
  ultimately have r0: "\<forall>d<size2_1 example_matrix.
          at2 (F_normalize example_matrix) 0 d = fdiv (at2 example_matrix 0 d) (Finite 5)"
    and a: "l2_norm (F_normalize example_matrix) 0 = Finite 1"
    using big by blast+
  have b: "at2 (F_normalize example_matrix) 0 0 = Finite (3 / 5)"
    "at2 (F_normalize example_matrix) 0 1 = Finite (4 / 5)"
    using r0 by (simp_all add: example_matrix_at)
  from unit_norm_above_floor[OF f2] obtain m where
    "l2_norm example_matrix 2 = Finite m"
    and "0 < m \<and> m < 1 / 10 ^ 12 \<longrightarrow>
       (\<forall>d<size2_1 example_matrix.
          at2 (F_normalize example_matrix) 2 d =
            fdiv (at2 example_matrix 2 d) (Finite (1 / 10 ^ 12))) \<and>
       l2_norm (F_normalize example_matrix) 2 = Finite (m * 10 ^ 12) \<and> m * 10 ^ 12 < 1"
    by blast
  moreover from this(1) have "m = tiny" unfolding example_matrix_norm by simp
  ultimately have r2: "\<forall>d<size2_1 example_matrix.
          at2 (F_normalize example_matrix) 2 d =
            fdiv (at2 example_matrix 2 d) (Finite (1 / 10 ^ 12))"
    and c: "l2_norm (F_normalize example_matrix) 2 = Finite (tiny * 10 ^ 12)"
    using tiny_pos tiny_below_floor by blast+
  have d: "at2 (F_normalize example_matrix) 2 0 = Finite (1 / 10)"
    using r2 by (simp add: example_matrix_at tiny_def)
  from c have "l2_norm (F_normalize example_matrix) 2 = Finite (1 / 10)"
    by (simp add: tiny_def)
  with a b d show ?thesis by simp
qed

text \<open>
  C10, as stated, fails: normalising the row [1e-13] gives [0.1], and normalising that
  gives [1].
\<close>

theorem normalize_idempotent_counterexample:
  "at2 (F_normalize tiny_row) 0 0 = Finite (1 / 10) \<and>
   at2 (F_normalize (F_normalize tiny_row)) 0 0 = Finite 1 \<and>
   F_normalize (F_normalize tiny_row) \<noteq> F_normalize tiny_row"
proof -
  have a: "at2 (F_normalize tiny_row) 0 0 = Finite (1 / 10)"
    by (rule F_normalize_tiny)
  have n: "l2_norm (F_normalize tiny_row) 0 = Finite (1 / 10)"
    by (rule F_normalize_tiny)
  have b: "at2 (F_normalize (F_normalize tiny_row)) 0 0 = Finite 1"
    unfolding F_normalize_at[of "F_normalize tiny_row"] a n by simp
  from a b have "at2 (F_normalize (F_normalize tiny_row)) 0 0 \<noteq> at2 (F_normalize tiny_row) 0 0"
    by simp
  then have "F_normalize (F_normalize tiny_row) \<noteq> F_normalize tiny_row"
    by auto
  with a b show ?thesis by blast
qed

text \<open>
  C10, amended. Up to the rounding of float32: \<^verbatim>\<open>F.normalize\<close> applied twice keeps
  the shape of one application, and on a matrix of finite values it is idempotent on
  every row whose L2 norm n is 0 or at least the floor 1e-12 and whose sum of squares n^2
  does not exceed the largest float32 number (it does not overflow): the second
  application changes no element of such a row. On every row with 0 < n < 1e-12 the
  second application changes an element.
\<close>

theorem normalize_idempotent_outside_floor:
  assumes "\<forall>b<size2_0 t. \<forall>d<size2_1 t. isfinite (at2 t b d)"
  shows "size2 (F_normalize (F_normalize t)) = size2 (F_normalize t) \<and>
    (\<forall>b<size2_0 t. \<exists>n. l2_norm t b = Finite n \<and>
       ((n = 0 \<or> 1 / 10 ^ 12 \<le> n) \<and> n\<^sup>2 \<le> flt_max \<longrightarrow>
          (\<forall>d<size2_1 t. at2 (F_normalize (F_normalize t)) b d = at2 (F_normalize t) b d)) \<and>
       (0 < n \<and> n < 1 / 10 ^ 12 \<longrightarrow>
          (\<exists>d<size2_1 t. at2 (F_normalize (F_normalize t)) b d \<noteq> at2 (F_normalize t) b d)))"
proof -
  have row: "\<exists>n. l2_norm t b = Finite n \<and>
       ((n = 0 \<or> 1 / 10 ^ 12 \<le> n) \<and> n\<^sup>2 \<le> flt_max \<longrightarrow>
          (\<forall>d<size2_1 t. at2 (F_normalize (F_normalize t)) b d = at2 (F_normalize t) b d)) \<and>
       (0 < n \<and> n < 1 / 10 ^ 12 \<longrightarrow>
          (\<exists>d<size2_1 t. at2 (F_normalize (F_normalize t)) b d \<noteq> at2 (F_normalize t) b d))"
    if b: "b < size2_0 t" for b
  proof -
    from assms b have "\<forall>d<size2_1 t. isfinite (at2 t b d)" by simp
    from isfinite_row[OF this]
    obtain x where "\<forall>d<size2_1 t. at2 t b d = Finite (x d)" ..
    then have x: "\<And>d. d < size2_1 t \<Longrightarrow> at2 t b d = Finite (x d)" by simp
    define n where "n = sqrt (\<Sum>d<size2_1 t. (x d)\<^sup>2)"
    define c where "c = max n (1 / 10 ^ 12)"
    define c2 where "c2 = max (n / c) (1 / 10 ^ 12)"
    have n: "l2_norm t b = Finite n"
      unfolding n_def by (rule finite_row_norm) (rule x)
    have once: "at2 (F_normalize t) b d = Finite (x d / c)" if "d < size2_1 t" for d
      unfolding c_def n_def by (rule finite_row_normalize) (simp_all add: x that)
    have twice: "at2 (F_normalize (F_normalize t)) b d = Finite (x d / c / c2)"
      if "d < size2_1 t" for d
      unfolding c2_def c_def n_def by (rule finite_row_normalize_twice) (simp_all add: x that)
    have c: "0 < c" unfolding c_def by (rule max_floor_pos)
    have c2: "0 < c2" unfolding c2_def by (rule max_floor_pos)
    have same_zero: "at2 (F_normalize (F_normalize t)) b d = at2 (F_normalize t) b d"
      if "n = 0" and d: "d < size2_1 t" for d
    proof -
      from that(1) have "sqrt (\<Sum>d<size2_1 t. (x d)\<^sup>2) = 0" by (simp add: n_def)
      then have "x d = 0" using d by (rule zero_norm_row)
      then show ?thesis by (simp add: once twice d)
    qed
    have same_big: "at2 (F_normalize (F_normalize t)) b d = at2 (F_normalize t) b d"
      if big: "1 / 10 ^ 12 \<le> n" and d: "d < size2_1 t" for d
    proof -
      have "0 < (1 / 10 ^ 12 :: real)" by simp
      with big have "0 < n" by linarith
      moreover from big have "c = n" by (simp add: c_def max_def)
      ultimately have "n / c = 1" by simp
      then have "c2 = 1" by (simp add: c2_def max_def)
      then show ?thesis by (simp add: once twice d)
    qed
    have differ: "\<exists>d<size2_1 t. at2 (F_normalize (F_normalize t)) b d \<noteq> at2 (F_normalize t) b d"
      if pos: "0 < n" and small: "n < 1 / 10 ^ 12"
    proof -
      from pos obtain d where d: "d < size2_1 t" "x d \<noteq> 0"
        unfolding n_def using positive_norm_row by blast
      from small have ce: "c = 1 / 10 ^ 12" by (simp add: c_def max_def)
      with small have "n / c < 1" by simp
      moreover have "(1 / 10 ^ 12 :: real) < 1" by simp
      ultimately have "c2 < 1" by (simp add: c2_def)
      with c2 have "x d / c / c2 \<noteq> x d / c"
        using d(2) c by (simp add: field_simps)
      then have "at2 (F_normalize (F_normalize t)) b d \<noteq> at2 (F_normalize t) b d"
        by (simp add: once twice d(1))
      with d(1) show ?thesis by blast
    qed
    from n same_zero same_big differ show ?thesis by blast
  qed
  moreover have "size2 (F_normalize (F_normalize t)) = size2 (F_normalize t)"
    by (simp add: F_normalize_def size2_def)
  ultimately show ?thesis by blast
qed

theorem normalize_idempotent_outside_floor_witness:
  "at2 (F_normalize (F_normalize example_matrix)) 0 0 = at2 (F_normalize example_matrix) 0 0 \<and>
   at2 (F_normalize (F_normalize example_matrix)) 0 1 = at2 (F_normalize example_matrix) 0 1 \<and>
   at2 (F_normalize (F_normalize example_matrix)) 1 0 = at2 (F_normalize example_matrix) 1 0 \<and>
   at2 (F_normalize (F_normalize example_matrix)) 1 1 = at2 (F_normalize example_matrix) 1 1 \<and>
   (\<exists>d<2. at2 (F_normalize (F_normalize example_matrix)) 2 d \<noteq>
           at2 (F_normalize example_matrix) 2 d)"
proof -
  have big: "1 / 10 ^ 12 \<le> (5::real) \<and> (5::real)\<^sup>2 \<le> flt_max"
    and zero: "(0::real)\<^sup>2 \<le> flt_max"
    by (simp_all add: flt_max_def)
  from normalize_idempotent_outside_floor[OF example_matrix_finite]
  have r: "\<forall>b<3. \<exists>n. l2_norm example_matrix b = Finite n \<and>
       ((n = 0 \<or> 1 / 10 ^ 12 \<le> n) \<and> n\<^sup>2 \<le> flt_max \<longrightarrow>
          (\<forall>d<2. at2 (F_normalize (F_normalize example_matrix)) b d =
                  at2 (F_normalize example_matrix) b d)) \<and>
       (0 < n \<and> n < 1 / 10 ^ 12 \<longrightarrow>
          (\<exists>d<2. at2 (F_normalize (F_normalize example_matrix)) b d \<noteq>
                  at2 (F_normalize example_matrix) b d))"
    unfolding example_matrix_at by blast
  have "(0::nat) < 3" by simp
  with r obtain n0 where "l2_norm example_matrix 0 = Finite n0"
    and "(n0 = 0 \<or> 1 / 10 ^ 12 \<le> n0) \<and> n0\<^sup>2 \<le> flt_max \<longrightarrow>
          (\<forall>d<2. at2 (F_normalize (F_normalize example_matrix)) 0 d =
                  at2 (F_normalize example_matrix) 0 d)"
    by blast
  moreover from this(1) have "n0 = 5" unfolding example_matrix_norm by simp
  ultimately have r0: "\<forall>d<2. at2 (F_normalize (F_normalize example_matrix)) 0 d =
                  at2 (F_normalize example_matrix) 0 d"
    using big by blast
  have "Suc 0 < 3" by simp
  with r obtain n1 where "l2_norm example_matrix (Suc 0) = Finite n1"
    and "(n1 = 0 \<or> 1 / 10 ^ 12 \<le> n1) \<and> n1\<^sup>2 \<le> flt_max \<longrightarrow>
          (\<forall>d<2. at2 (F_normalize (F_normalize example_matrix)) (Suc 0) d =
                  at2 (F_normalize example_matrix) (Suc 0) d)"
    by blast
  moreover from this(1) have "n1 = 0" unfolding example_matrix_norm by simp
  ultimately have r1: "\<forall>d<2. at2 (F_normalize (F_normalize example_matrix)) (Suc 0) d =
                  at2 (F_normalize example_matrix) (Suc 0) d"
    using zero by blast
  have "(2::nat) < 3" by simp
  with r obtain n2 where "l2_norm example_matrix 2 = Finite n2"
    and "0 < n2 \<and> n2 < 1 / 10 ^ 12 \<longrightarrow>
          (\<exists>d<2. at2 (F_normalize (F_normalize example_matrix)) 2 d \<noteq>
                  at2 (F_normalize example_matrix) 2 d)"
    by blast
  moreover from this(1) have "n2 = tiny" unfolding example_matrix_norm by simp
  ultimately have r2: "\<exists>d<2. at2 (F_normalize (F_normalize example_matrix)) 2 d \<noteq>
                  at2 (F_normalize example_matrix) 2 d"
    using tiny_pos tiny_below_floor by blast
  from r0 r1 r2 show ?thesis by simp
qed


end
